theory Spec2Isabelle
  imports Main
begin

section \<open>Values exchanged with the GraphQL endpoint\<close>

text \<open>
  A JSON value as Python's \<open>json\<close> and \<open>gql\<close> hand it over; \<open>Dict[str, Any]\<close> is an
  association list from field names to JSON values, the empty list being \<open>{}\<close>.
\<close>

datatype json =
    JNull
  | JBool bool
  | JInt int
  | JStr string
  | JList "json list"
  | JDict "(string \<times> json) list"

type_synonym dict = "(string \<times> json) list"

text \<open>The parsed query that \<open>gql\<close> returns.\<close>

datatype document = DocumentNode string

text \<open>
  The transport and the client of the \<open>gql\<close> library, as the constructor calls of
  \<open>_initialize_client\<close> build them.
\<close>

datatype transport = AIOHTTPTransport (url: string) (headers: "(string \<times> string) list")

datatype client = Client (transport: transport) (fetch_schema_from_transport: bool)

section \<open>Exceptions\<close>

text \<open>
  The exception classes the handlers of \<open>query\<close> tell apart. Every value carries
  \<open>str(e)\<close> as its last argument; \<open>GraphQLError\<close> carries \<open>e.message\<close> first and
  \<open>TransportQueryError\<close> the rendering of \<open>e.errors\<close> first. \<open>OtherException\<close> is any
  other subclass of \<open>Exception\<close>; \<open>NonException\<close> is a \<open>BaseException\<close> that is not an
  \<open>Exception\<close> (\<open>KeyboardInterrupt\<close>, \<open>SystemExit\<close>), which \<open>except Exception\<close> does not
  catch.
\<close>

datatype exn =
    GraphQLError string string
  | TransportProtocolError string
  | TransportQueryError string string
  | TransportClosed string
  | TransportServerError string
  | OtherException string
  | NonException string

fun str_exn :: "exn \<Rightarrow> string" where
  "str_exn (GraphQLError message s) = s"
| "str_exn (TransportProtocolError s) = s"
| "str_exn (TransportQueryError errors s) = s"
| "str_exn (TransportClosed s) = s"
| "str_exn (TransportServerError s) = s"
| "str_exn (OtherException s) = s"
| "str_exn (NonException s) = s"

fun is_Exception :: "exn \<Rightarrow> bool" where
  "is_Exception (NonException s) = False"
| "is_Exception e = True"

fun is_TransportProtocolError :: "exn \<Rightarrow> bool" where
  "is_TransportProtocolError (TransportProtocolError s) = True"
| "is_TransportProtocolError e = False"

section \<open>Effects\<close>

datatype level = DEBUG | INFO | WARNING | ERROR | CRITICAL

text \<open>
  The chronological trace of what the client does to the outside and to itself: calls of
  \<open>get_access_token\<close>, assignments to \<open>self.client\<close>, calls of \<open>self.client.execute\<close>
  (with the client, the document and the parameters passed), records sent to the logger,
  and assignments to \<open>self._reauthenticated\<close>.
\<close>

datatype event =
    TokenRequested
  | ClientAssigned client
  | Executed client document dict
  | Logged level string
  | ReauthenticatedAssigned bool

text \<open>
  The collaborators outside this file. \<open>get_access_token k\<close> is what the call number \<open>k\<close>
  of the credential provider does (raise, or return a token); \<open>execute k c d p\<close> is what
  the call number \<open>k\<close> of \<open>Client.execute\<close> does on client \<open>c\<close>; \<open>gql\<close> parses a query
  string or raises; \<open>ROBOT_API_URL\<close> is the configured endpoint.
\<close>

record env =
  ROBOT_API_URL :: string
  get_access_token :: "nat \<Rightarrow> exn + string"
  gql :: "string \<Rightarrow> exn + document"
  execute :: "nat \<Rightarrow> client \<Rightarrow> document \<Rightarrow> dict \<Rightarrow> exn + dict"

text \<open>The world outside the object: how many calls were made so far, and the trace.\<close>

record world =
  token_calls :: nat
  execute_calls :: nat
  events :: "event list"

text \<open>
  The attributes of a \<open>GraphqlClient\<close>. \<open>client\<close> is \<open>None\<close> while the attribute does not
  exist yet, that is inside \<open>__init__\<close> before \<open>_initialize_client\<close> has assigned it. The
  logger is the process-wide logger named \<open>graphql_client\<close>; its records go to the trace.
\<close>

record graphql_client =
  reauthenticated :: bool
  client :: "client option"

definition emit :: "event \<Rightarrow> world \<Rightarrow> world" where
  "emit ev w = w\<lparr>events := events w @ [ev]\<rparr>"

definition log :: "level \<Rightarrow> string \<Rightarrow> world \<Rightarrow> world" where
  "log lvl msg w = emit (Logged lvl msg) w"

definition set_reauthenticated ::
  "bool \<Rightarrow> world \<Rightarrow> graphql_client \<Rightarrow> world \<times> graphql_client" where
  "set_reauthenticated b w self =
     (emit (ReauthenticatedAssigned b) w, self\<lparr>reauthenticated := b\<rparr>)"

section \<open>The client\<close>

text \<open>\<open>GraphqlClient._initialize_client\<close>.\<close>

definition initialize_client ::
  "env \<Rightarrow> world \<Rightarrow> graphql_client \<Rightarrow> world \<times> graphql_client \<times> (exn + unit)" where
  "initialize_client e w self =
     (let w1 = emit TokenRequested (w\<lparr>token_calls := Suc (token_calls w)\<rparr>) in
      case get_access_token e (token_calls w) of
        Inl ex \<Rightarrow>
          if is_Exception ex
          then (log CRITICAL (''CRITICAL - Error getting access token: '' @ [CHR 0x0A] @ str_exn ex) w1,
                self, Inl ex)
          else (w1, self, Inl ex)
      | Inr token \<Rightarrow>
          let auth_header = [(''authorization'', ''Bearer '' @ token)];
              transport = AIOHTTPTransport (ROBOT_API_URL e) auth_header;
              c = Client transport True
          in (emit (ClientAssigned c) w1, self\<lparr>client := Some c\<rparr>, Inr ()))"

text \<open>
  \<open>GraphqlClient.__init__\<close>: the object exists for the caller only when the constructor
  returns.
\<close>

definition init :: "env \<Rightarrow> world \<Rightarrow> world \<times> (exn + graphql_client)" where
  "init e w =
     (case set_reauthenticated False w \<lparr>reauthenticated = False, client = None\<rparr> of
        (w1, self1) \<Rightarrow>
          (case initialize_client e w1 self1 of
             (w2, self2, Inl ex) \<Rightarrow> (w2, Inl ex)
           | (w2, self2, Inr u) \<Rightarrow> (w2, Inr self2)))"

text \<open>
  Lines 51 to 53 of \<open>query\<close>, the body of the \<open>try\<close>: parse, then execute on
  \<open>self.client\<close>. Reading a missing attribute raises \<open>AttributeError\<close>.
\<close>

definition try_body ::
  "env \<Rightarrow> world \<Rightarrow> graphql_client \<Rightarrow> string \<Rightarrow> dict \<Rightarrow> world \<times> (exn + dict)" where
  "try_body e w self query_string query_parameters =
     (case gql e query_string of
        Inl ex \<Rightarrow> (w, Inl ex)
      | Inr doc \<Rightarrow>
          (case client self of
             None \<Rightarrow> (w, Inl (OtherException ''AttributeError''))
           | Some c \<Rightarrow>
               (emit (Executed c doc query_parameters) (w\<lparr>execute_calls := Suc (execute_calls w)\<rparr>),
                execute e (execute_calls w) c doc query_parameters)))"

text \<open>
  How the \<open>try\<close> statement with its handlers ends, before \<open>finally\<close> runs: by a
  \<open>return\<close>, by an exception leaving it, or by reaching the end of a handler.
\<close>

datatype completion = Returned dict | Raised exn | Fallthrough

text \<open>
  \<open>GraphqlClient.query\<close>. The handlers are tried in the order of the source; an
  exception raised inside a handler leaves the statement. \<open>finally\<close> runs on every
  way out, and line 86 returns \<open>{}\<close> when the statement was left at the end of a
  handler.
\<close>

function query ::
  "env \<Rightarrow> world \<Rightarrow> graphql_client \<Rightarrow> string \<Rightarrow> dict \<Rightarrow> world \<times> graphql_client \<times> (exn + dict)" where
  "query e w self query_string query_parameters =
     (case
        (case try_body e w self query_string query_parameters of
           (w0, Inr response) \<Rightarrow> (w0, self, Returned response)
         | (w0, Inl ex) \<Rightarrow>
             (case ex of
                GraphQLError message s \<Rightarrow>
                  (log ERROR (''Something went wrong while sending the GraphQL query: '' @ message) w0,
                   self, Raised ex)
              | TransportProtocolError s \<Rightarrow>
                  if reauthenticated self
                  then (log ERROR ''Transport protocol error - Error in configuration of GraphQL client'' w0,
                        self, Raised ex)
                  else
                    (case initialize_client e w0 self of
                       (w2, self2, Inl ex2) \<Rightarrow> (w2, self2, Raised ex2)
                     | (w2, self2, Inr u) \<Rightarrow>
                         (case set_reauthenticated True w2 self2 of
                            (w3, self3) \<Rightarrow>
                              (case query e w3 self3 query_string query_parameters of
                                 (w4, self4, Inl ex4) \<Rightarrow> (w4, self4, Raised ex4)
                               | (w4, self4, Inr discarded) \<Rightarrow> (w4, self4, Fallthrough))))
              | TransportQueryError errors s \<Rightarrow>
                  (log ERROR (''The Energy Robotics server returned an error: '' @ errors) w0,
                   self, Raised ex)
              | TransportClosed s \<Rightarrow>
                  (log ERROR ''The connection to the GraphQL endpoint is closed'' w0, self, Raised ex)
              | TransportServerError s \<Rightarrow>
                  (log ERROR (''Error in Energy Robotics server: '' @ s) w0, self, Raised ex)
              | OtherException s \<Rightarrow>
                  (log ERROR (''Unknown error in GraphQL client: '' @ s) w0, self, Raised ex)
              | NonException s \<Rightarrow> (w0, self, Raised ex)))
      of (w5, self5, outcome) \<Rightarrow>
        (case set_reauthenticated False w5 self5 of
           (w6, self6) \<Rightarrow>
             (w6, self6,
              (case outcome of
                 Returned response \<Rightarrow> Inr response
               | Raised ex \<Rightarrow> Inl ex
               | Fallthrough \<Rightarrow> Inr []))))"
  by pat_completeness auto
termination
  by (relation "measure (\<lambda>(e, w, self, qs, qp). if reauthenticated self then 0 else 1)")
     (auto simp: set_reauthenticated_def)

declare query.simps [simp del]

section \<open>Concrete collaborators for the examples\<close>

text \<open>
  An environment whose credential provider and endpoint are given call by call, and a
  client as \<open>__init__\<close> leaves it, holding a session built on an older token.
\<close>

definition example_env :: "(nat \<Rightarrow> exn + string) \<Rightarrow> (nat \<Rightarrow> exn + dict) \<Rightarrow> env" where
  "example_env tokens outcomes =
     \<lparr>ROBOT_API_URL = ''https://robot.example/graphql'',
      get_access_token = tokens,
      gql = (\<lambda>s. if s = [] then Inl (GraphQLError ''Syntax Error'' ''Syntax Error'') else Inr (DocumentNode s)),
      execute = (\<lambda>k c d p. outcomes k)\<rparr>"

definition example_world :: world where
  "example_world = \<lparr>token_calls = 0, execute_calls = 0, events = []\<rparr>"

definition example_client :: client where
  "example_client = Client (AIOHTTPTransport ''https://robot.example/graphql'' [(''authorization'', ''Bearer old'')]) True"

definition example_self :: graphql_client where
  "example_self = \<lparr>reauthenticated = False, client = Some example_client\<rparr>"

definition rebuilt_client :: client where
  "rebuilt_client = Client (AIOHTTPTransport ''https://robot.example/graphql'' [(''authorization'', ''Bearer fresh'')]) True"

section \<open>Auxiliary facts\<close>

lemma try_body_world:
  "token_calls (fst (try_body e w self qs qp)) = token_calls w"
  "execute_calls (fst (try_body e w self qs qp)) \<le> Suc (execute_calls w)"
  by (simp_all add: try_body_def emit_def split: sum.splits option.splits)

lemma try_body_executes:
  "client self = Some c \<Longrightarrow> gql e qs = Inr doc \<Longrightarrow>
   try_body e w self qs qp =
     (emit (Executed c doc qp) (w\<lparr>execute_calls := Suc (execute_calls w)\<rparr>),
      execute e (execute_calls w) c doc qp)"
  by (simp add: try_body_def)

lemma query_Inr:
  "try_body e w self qs qp = (w0, Inr r) \<Longrightarrow>
   query e w self qs qp =
     (emit (ReauthenticatedAssigned False) w0, self\<lparr>reauthenticated := False\<rparr>, Inr r)"
  by (subst query.simps) (simp add: set_reauthenticated_def)

lemma query_Inl_no_retry:
  assumes "try_body e w self qs qp = (w0, Inl ex)"
    and "is_TransportProtocolError ex \<longrightarrow> reauthenticated self"
  shows "\<exists>logs. events (fst (query e w self qs qp)) = events w0 @ logs @ [ReauthenticatedAssigned False]
           \<and> (if is_Exception ex then \<exists>msg. logs = [Logged ERROR msg] else logs = [])
           \<and> token_calls (fst (query e w self qs qp)) = token_calls w0
           \<and> execute_calls (fst (query e w self qs qp)) = execute_calls w0
           \<and> fst (snd (query e w self qs qp)) = self\<lparr>reauthenticated := False\<rparr>
           \<and> snd (snd (query e w self qs qp)) = Inl ex"
  using assms
  by (subst (1 2 3 4 5) query.simps) (cases ex; simp add: set_reauthenticated_def log_def emit_def)

lemma query_token_failure:
  assumes "\<not> reauthenticated self"
    and "try_body e w self qs qp = (w0, Inl (TransportProtocolError m))"
    and "get_access_token e (token_calls w0) = Inl ex"
  shows "query e w self qs qp =
           (w0\<lparr>token_calls := Suc (token_calls w0),
               events := events w0 @ [TokenRequested]
                 @ (if is_Exception ex
                    then [Logged CRITICAL (''CRITICAL - Error getting access token: '' @ [CHR 0x0A] @ str_exn ex)]
                    else [])
                 @ [ReauthenticatedAssigned False]\<rparr>,
            self\<lparr>reauthenticated := False\<rparr>, Inl ex)"
  using assms
  by (subst query.simps)
     (simp add: initialize_client_def set_reauthenticated_def log_def emit_def)

lemma query_retry:
  assumes "\<not> reauthenticated self"
    and "try_body e w self qs qp = (w0, Inl (TransportProtocolError m))"
    and "get_access_token e (token_calls w0) = Inr token"
    and "query e
           (w0\<lparr>token_calls := Suc (token_calls w0),
               events := events w0 @
                 [TokenRequested,
                  ClientAssigned (Client (AIOHTTPTransport (ROBOT_API_URL e) [(''authorization'', ''Bearer '' @ token)]) True),
                  ReauthenticatedAssigned True]\<rparr>)
           (self\<lparr>client := Some (Client (AIOHTTPTransport (ROBOT_API_URL e) [(''authorization'', ''Bearer '' @ token)]) True),
                 reauthenticated := True\<rparr>)
           qs qp = (w4, self4, r)"
  shows "query e w self qs qp =
           (emit (ReauthenticatedAssigned False) w4, self4\<lparr>reauthenticated := False\<rparr>,
            (case r of Inl ex \<Rightarrow> Inl ex | Inr discarded \<Rightarrow> Inr []))"
proof -
  have init: "initialize_client e w0 self =
      (w0\<lparr>token_calls := Suc (token_calls w0),
          events := events w0 @
            [TokenRequested,
             ClientAssigned (Client (AIOHTTPTransport (ROBOT_API_URL e) [(''authorization'', ''Bearer '' @ token)]) True)]\<rparr>,
       self\<lparr>client := Some (Client (AIOHTTPTransport (ROBOT_API_URL e) [(''authorization'', ''Bearer '' @ token)]) True)\<rparr>,
       Inr ())"
    using assms(3) by (simp add: initialize_client_def emit_def Let_def)
  show ?thesis
    using assms(1,2,4)
    by (subst query.simps) (cases r; simp add: init set_reauthenticated_def emit_def)
qed

section \<open>The reauthentication flag\<close>

text \<open>
  C2. After any call of \<open>query\<close>, whichever branch ran and whether it returns or raises,
  \<open>_reauthenticated\<close> is false, and the last thing the call did was the assignment of
  the \<open>finally\<close> clause.
\<close>

theorem query_resets_reauthenticated:
  "reauthenticated (fst (snd (query e w self qs qp))) = False
   \<and> last (events (fst (query e w self qs qp))) = ReauthenticatedAssigned False"
  by (subst (1 2) query.simps) (simp add: set_reauthenticated_def emit_def case_prod_beta)

section \<open>The successful first attempt\<close>

text \<open>
  C5. When the query string parses and the first execution succeeds, \<open>query\<close> has parsed
  the text, executed the document with the given parameters on the current session, and
  returns exactly the mapping the execution produced; nothing else happened but the
  cleanup.
\<close>

theorem query_success_returns_response:
  assumes "client self = Some c"
    and "gql e qs = Inr doc"
    and "execute e (execute_calls w) c doc qp = Inr response"
  shows "query e w self qs qp =
           (w\<lparr>execute_calls := Suc (execute_calls w),
              events := events w @ [Executed c doc qp, ReauthenticatedAssigned False]\<rparr>,
            self\<lparr>reauthenticated := False\<rparr>, Inr response)"
proof -
  have "try_body e w self qs qp =
          (emit (Executed c doc qp) (w\<lparr>execute_calls := Suc (execute_calls w)\<rparr>), Inr response)"
    using assms by (simp add: try_body_executes)
  then show ?thesis
    by (simp add: query_Inr emit_def)
qed

theorem query_success_returns_response_witness:
  "query (example_env (\<lambda>k. Inr ''fresh'') (\<lambda>k. Inr [(''missionReports'', JList [])]))
     example_world example_self ''query { missionReports }'' [(''robotId'', JStr ''r1'')] =
     (\<lparr>token_calls = 0, execute_calls = 1,
       events = [Executed example_client (DocumentNode ''query { missionReports }'') [(''robotId'', JStr ''r1'')],
                 ReauthenticatedAssigned False]\<rparr>,
      example_self, Inr [(''missionReports'', JList [])])"
  using query_success_returns_response
    [of example_self example_client
        "example_env (\<lambda>k. Inr ''fresh'') (\<lambda>k. Inr [(''missionReports'', JList [])])"
        "''query { missionReports }''" "DocumentNode ''query { missionReports }''"
        example_world "[(''robotId'', JStr ''r1'')]" "[(''missionReports'', JList [])]"]
  by (simp add: example_env_def example_world_def example_self_def)

section \<open>More auxiliary facts\<close>

lemma try_body_events:
  "\<exists>pre. events (fst (try_body e w self qs qp)) = events w @ pre
         \<and> (pre = [] \<or> (\<exists>c doc. pre = [Executed c doc qp]))"
  by (simp add: try_body_def emit_def split: sum.splits option.splits)

lemma query_flagged:
  assumes "reauthenticated self"
    and "client self = Some c"
    and "gql e qs = Inr doc"
  shows "\<exists>logs. events (fst (query e w self qs qp)) =
                  events w @ [Executed c doc qp] @ logs @ [ReauthenticatedAssigned False]
           \<and> (logs = [] \<or> (\<exists>msg. logs = [Logged ERROR msg]))
           \<and> token_calls (fst (query e w self qs qp)) = token_calls w
           \<and> execute_calls (fst (query e w self qs qp)) = Suc (execute_calls w)
           \<and> fst (snd (query e w self qs qp)) = self\<lparr>reauthenticated := False\<rparr>
           \<and> snd (snd (query e w self qs qp)) = execute e (execute_calls w) c doc qp"
proof (cases "execute e (execute_calls w) c doc qp")
  case (Inr r)
  then have "try_body e w self qs qp =
      (emit (Executed c doc qp) (w\<lparr>execute_calls := Suc (execute_calls w)\<rparr>), Inr r)"
    using assms by (simp add: try_body_executes)
  then show ?thesis
    using Inr by (simp add: query_Inr emit_def)
next
  case (Inl ex)
  then have tb: "try_body e w self qs qp =
      (emit (Executed c doc qp) (w\<lparr>execute_calls := Suc (execute_calls w)\<rparr>), Inl ex)"
    using assms by (simp add: try_body_executes)
  from query_Inl_no_retry [OF tb] assms(1) obtain logs where
    L: "events (fst (query e w self qs qp)) =
          events (emit (Executed c doc qp) (w\<lparr>execute_calls := Suc (execute_calls w)\<rparr>))
            @ logs @ [ReauthenticatedAssigned False]"
      "if is_Exception ex then \<exists>msg. logs = [Logged ERROR msg] else logs = []"
      "token_calls (fst (query e w self qs qp)) =
         token_calls (emit (Executed c doc qp) (w\<lparr>execute_calls := Suc (execute_calls w)\<rparr>))"
      "execute_calls (fst (query e w self qs qp)) =
         execute_calls (emit (Executed c doc qp) (w\<lparr>execute_calls := Suc (execute_calls w)\<rparr>))"
      "fst (snd (query e w self qs qp)) = self\<lparr>reauthenticated := False\<rparr>"
      "snd (snd (query e w self qs qp)) = Inl ex"
    by blast
  from L(2) have "logs = [] \<or> (\<exists>msg. logs = [Logged ERROR msg])"
    by (simp split: if_splits)
  with L(1,3,4,5,6) Inl show ?thesis
    by (simp add: emit_def)
qed

section \<open>The reauthentication retry\<close>

text \<open>
  C1. When the first execution raises a transport-protocol error, a fresh token is
  obtained and the retry on the rebuilt session succeeds with \<open>response\<close>, the outer call
  returns the empty mapping: \<open>response\<close> does not reach the caller.
\<close>

theorem query_retry_result_discarded:
  assumes "\<not> reauthenticated self"
    and "client self = Some c"
    and "gql e qs = Inr doc"
    and "execute e (execute_calls w) c doc qp = Inl (TransportProtocolError m)"
    and "get_access_token e (token_calls w) = Inr token"
    and "c' = Client (AIOHTTPTransport (ROBOT_API_URL e) [(''authorization'', ''Bearer '' @ token)]) True"
    and "execute e (Suc (execute_calls w)) c' doc qp = Inr response"
  shows "query e w self qs qp =
           (w\<lparr>token_calls := Suc (token_calls w),
              execute_calls := Suc (Suc (execute_calls w)),
              events := events w @
                [Executed c doc qp, TokenRequested, ClientAssigned c', ReauthenticatedAssigned True,
                 Executed c' doc qp, ReauthenticatedAssigned False, ReauthenticatedAssigned False]\<rparr>,
            self\<lparr>client := Some c', reauthenticated := False\<rparr>,
            Inr [])"
proof -
  let ?w0 = "emit (Executed c doc qp) (w\<lparr>execute_calls := Suc (execute_calls w)\<rparr>)"
  let ?w3 = "?w0\<lparr>token_calls := Suc (token_calls ?w0),
                 events := events ?w0 @ [TokenRequested, ClientAssigned c', ReauthenticatedAssigned True]\<rparr>"
  let ?self3 = "self\<lparr>client := Some c', reauthenticated := True\<rparr>"
  have tb: "try_body e w self qs qp = (?w0, Inl (TransportProtocolError m))"
    using assms(2,3,4) by (simp add: try_body_executes)
  have tok: "get_access_token e (token_calls ?w0) = Inr token"
    using assms(5) by (simp add: emit_def)
  have "try_body e ?w3 ?self3 qs qp =
          (emit (Executed c' doc qp) (?w3\<lparr>execute_calls := Suc (execute_calls ?w3)\<rparr>), Inr response)"
    using assms(3,7) by (simp add: try_body_def emit_def)
  then have inner: "query e ?w3 ?self3 qs qp =
      (emit (ReauthenticatedAssigned False)
         (emit (Executed c' doc qp) (?w3\<lparr>execute_calls := Suc (execute_calls ?w3)\<rparr>)),
       ?self3\<lparr>reauthenticated := False\<rparr>, Inr response)"
    by (rule query_Inr)
  show ?thesis
    using query_retry [OF assms(1) tb tok inner [unfolded assms(6)]]
    by (simp add: emit_def assms(6))
qed

theorem query_retry_result_discarded_witness:
  "query (example_env (\<lambda>k. Inr ''fresh'')
            (\<lambda>k. if k = 0 then Inl (TransportProtocolError ''401'') else Inr [(''robot'', JStr ''r1'')]))
     example_world example_self ''query { robot }'' [] =
     (\<lparr>token_calls = 1, execute_calls = 2,
       events = [Executed example_client (DocumentNode ''query { robot }'') [], TokenRequested,
                 ClientAssigned rebuilt_client, ReauthenticatedAssigned True,
                 Executed rebuilt_client (DocumentNode ''query { robot }'') [],
                 ReauthenticatedAssigned False, ReauthenticatedAssigned False]\<rparr>,
      \<lparr>reauthenticated = False, client = Some rebuilt_client\<rparr>,
      Inr [])"
  using query_retry_result_discarded
    [of example_self example_client
        "example_env (\<lambda>k. Inr ''fresh'')
           (\<lambda>k. if k = 0 then Inl (TransportProtocolError ''401'') else Inr [(''robot'', JStr ''r1'')])"
        "''query { robot }''" "DocumentNode ''query { robot }''"
        example_world "[]" "''401''" "''fresh''" rebuilt_client "[(''robot'', JStr ''r1'')]"]
  by (simp add: example_env_def example_world_def example_self_def rebuilt_client_def)

text \<open>
  C10. When the first execution raises a transport-protocol error and the credential
  provider raises during the rebuild, that exception reaches the caller; the trace holds
  the one execution, the token request and (for an \<open>Exception\<close>) the critical record, then
  the cleanup: no assignment of \<open>True\<close> to the flag, no new session, no second execution.
\<close>

theorem query_rebuild_token_failure:
  assumes "\<not> reauthenticated self"
    and "client self = Some c"
    and "gql e qs = Inr doc"
    and "execute e (execute_calls w) c doc qp = Inl (TransportProtocolError m)"
    and "get_access_token e (token_calls w) = Inl ex"
  shows "query e w self qs qp =
           (w\<lparr>token_calls := Suc (token_calls w),
              execute_calls := Suc (execute_calls w),
              events := events w @ [Executed c doc qp, TokenRequested]
                @ (if is_Exception ex
                   then [Logged CRITICAL (''CRITICAL - Error getting access token: '' @ [CHR 0x0A] @ str_exn ex)]
                   else [])
                @ [ReauthenticatedAssigned False]\<rparr>,
            self\<lparr>reauthenticated := False\<rparr>,
            Inl ex)"
proof -
  let ?w0 = "emit (Executed c doc qp) (w\<lparr>execute_calls := Suc (execute_calls w)\<rparr>)"
  have tb: "try_body e w self qs qp = (?w0, Inl (TransportProtocolError m))"
    using assms(2,3,4) by (simp add: try_body_executes)
  have tok: "get_access_token e (token_calls ?w0) = Inl ex"
    using assms(5) by (simp add: emit_def)
  show ?thesis
    using query_token_failure [OF assms(1) tb tok] by (simp add: emit_def)
qed

theorem query_rebuild_token_failure_witness:
  "query (example_env (\<lambda>k. Inl (OtherException ''no credentials''))
            (\<lambda>k. Inl (TransportProtocolError ''401'')))
     example_world example_self ''query { robot }'' [] =
     (\<lparr>token_calls = 1, execute_calls = 1,
       events = [Executed example_client (DocumentNode ''query { robot }'') [], TokenRequested,
                 Logged CRITICAL (''CRITICAL - Error getting access token: '' @ [CHR 0x0A] @ ''no credentials''),
                 ReauthenticatedAssigned False]\<rparr>,
      example_self,
      Inl (OtherException ''no credentials''))"
  using query_rebuild_token_failure
    [of example_self example_client
        "example_env (\<lambda>k. Inl (OtherException ''no credentials''))
           (\<lambda>k. Inl (TransportProtocolError ''401''))"
        "''query { robot }''" "DocumentNode ''query { robot }''"
        example_world "[]" "''401''" "OtherException ''no credentials''"]
  by (simp add: example_env_def example_world_def example_self_def)

text \<open>
  C3, as stated, fails: a transport-protocol error on the first attempt does not always
  lead to one rebuild and one retry. With a credential provider that raises, the call
  below executes the query once, builds no session and never retries.
\<close>

theorem query_protocol_error_no_retry_counterexample:
  "\<not> reauthenticated example_self
   \<and> execute (example_env (\<lambda>k. Inl (OtherException ''no credentials''))
                (\<lambda>k. Inl (TransportProtocolError ''401'')))
        (execute_calls example_world) example_client (DocumentNode ''query { robot }'') []
      = Inl (TransportProtocolError ''401'')
   \<and> execute_calls (fst (query (example_env (\<lambda>k. Inl (OtherException ''no credentials''))
                                   (\<lambda>k. Inl (TransportProtocolError ''401'')))
                            example_world example_self ''query { robot }'' []))
      = Suc (execute_calls example_world)
   \<and> client (fst (snd (query (example_env (\<lambda>k. Inl (OtherException ''no credentials''))
                                 (\<lambda>k. Inl (TransportProtocolError ''401'')))
                          example_world example_self ''query { robot }'' [])))
      = Some example_client
   \<and> events (fst (query (example_env (\<lambda>k. Inl (OtherException ''no credentials''))
                            (\<lambda>k. Inl (TransportProtocolError ''401'')))
                     example_world example_self ''query { robot }'' []))
      = [Executed example_client (DocumentNode ''query { robot }'') [], TokenRequested,
         Logged CRITICAL (''CRITICAL - Error getting access token: '' @ [CHR 0x0A] @ ''no credentials''),
         ReauthenticatedAssigned False]"
  using query_token_failure
    [of example_self
        "example_env (\<lambda>k. Inl (OtherException ''no credentials''))
           (\<lambda>k. Inl (TransportProtocolError ''401''))"
        example_world "''query { robot }''" "[]"
        "\<lparr>token_calls = 0, execute_calls = 1,
          events = [Executed example_client (DocumentNode ''query { robot }'') []]\<rparr>"
        "''401''" "OtherException ''no credentials''"]
  by (simp add: example_env_def example_world_def example_self_def try_body_def emit_def)

lemma query_retry_trace:
  assumes "\<not> reauthenticated self"
    and "client self = Some c"
    and "gql e qs = Inr doc"
    and "execute e (execute_calls w) c doc qp = Inl (TransportProtocolError m)"
    and "get_access_token e (token_calls w) = Inr token"
    and "c' = Client (AIOHTTPTransport (ROBOT_API_URL e) [(''authorization'', ''Bearer '' @ token)]) True"
  shows "\<exists>logs.
           events (fst (query e w self qs qp)) =
             events w @
               [Executed c doc qp, TokenRequested, ClientAssigned c', ReauthenticatedAssigned True,
                Executed c' doc qp]
               @ logs @ [ReauthenticatedAssigned False, ReauthenticatedAssigned False]
           \<and> (logs = [] \<or> (\<exists>msg. logs = [Logged ERROR msg]))
           \<and> token_calls (fst (query e w self qs qp)) = Suc (token_calls w)
           \<and> execute_calls (fst (query e w self qs qp)) = Suc (Suc (execute_calls w))
           \<and> client (fst (snd (query e w self qs qp))) = Some c'
           \<and> (\<forall>m'. execute e (Suc (execute_calls w)) c' doc qp = Inl (TransportProtocolError m')
                  \<longrightarrow> snd (snd (query e w self qs qp)) = Inl (TransportProtocolError m'))"
proof -
  let ?w0 = "emit (Executed c doc qp) (w\<lparr>execute_calls := Suc (execute_calls w)\<rparr>)"
  let ?w3 = "?w0\<lparr>token_calls := Suc (token_calls ?w0),
                 events := events ?w0 @ [TokenRequested, ClientAssigned c', ReauthenticatedAssigned True]\<rparr>"
  let ?self3 = "self\<lparr>client := Some c', reauthenticated := True\<rparr>"
  let ?Q = "query e ?w3 ?self3 qs qp"
  have tb: "try_body e w self qs qp = (?w0, Inl (TransportProtocolError m))"
    using assms(2,3,4) by (simp add: try_body_executes)
  have tok: "get_access_token e (token_calls ?w0) = Inr token"
    using assms(5) by (simp add: emit_def)
  have flagged: "reauthenticated ?self3" and cl: "client ?self3 = Some c'"
    by simp_all
  from query_flagged [OF flagged cl assms(3), of ?w3 qp] obtain logs where
    L: "events (fst ?Q) = events ?w3 @ [Executed c' doc qp] @ logs @ [ReauthenticatedAssigned False]"
      "logs = [] \<or> (\<exists>msg. logs = [Logged ERROR msg])"
      "token_calls (fst ?Q) = token_calls ?w3"
      "execute_calls (fst ?Q) = Suc (execute_calls ?w3)"
      "fst (snd ?Q) = ?self3\<lparr>reauthenticated := False\<rparr>"
      "snd (snd ?Q) = execute e (execute_calls ?w3) c' doc qp"
    by blast
  have inner: "?Q = (fst ?Q, fst (snd ?Q), snd (snd ?Q))"
    by simp
  have outer: "query e w self qs qp =
      (emit (ReauthenticatedAssigned False) (fst ?Q), (fst (snd ?Q))\<lparr>reauthenticated := False\<rparr>,
       (case snd (snd ?Q) of Inl ex \<Rightarrow> Inl ex | Inr discarded \<Rightarrow> Inr []))"
    using query_retry [OF assms(1) tb tok inner [unfolded assms(6)]]
    by (simp add: assms(6))
  have "events (fst (query e w self qs qp)) =
          events w @
            [Executed c doc qp, TokenRequested, ClientAssigned c', ReauthenticatedAssigned True,
             Executed c' doc qp]
            @ logs @ [ReauthenticatedAssigned False, ReauthenticatedAssigned False]"
    using L(1) by (simp add: outer emit_def)
  moreover have "token_calls (fst (query e w self qs qp)) = Suc (token_calls w)"
    using L(3) by (simp add: outer emit_def)
  moreover have "execute_calls (fst (query e w self qs qp)) = Suc (Suc (execute_calls w))"
    using L(4) by (simp add: outer emit_def)
  moreover have "client (fst (snd (query e w self qs qp))) = Some c'"
    using L(5) by (simp add: outer emit_def)
  moreover have "\<forall>m'. execute e (Suc (execute_calls w)) c' doc qp = Inl (TransportProtocolError m')
                  \<longrightarrow> snd (snd (query e w self qs qp)) = Inl (TransportProtocolError m')"
    using L(6) by (simp add: outer emit_def)
  ultimately show ?thesis
    using L(2) by blast
qed

lemma flagged_call_bounds:
  assumes "reauthenticated self"
  shows "token_calls (fst (query e w self qs qp)) = token_calls w
         \<and> execute_calls (fst (query e w self qs qp)) \<le> Suc (execute_calls w)"
proof (cases "snd (try_body e w self qs qp)")
  case (Inr r)
  then have "try_body e w self qs qp = (fst (try_body e w self qs qp), Inr r)"
    by (simp add: prod_eq_iff)
  from query_Inr [OF this] show ?thesis
    by (simp add: emit_def try_body_world)
next
  case (Inl ex)
  then have tb: "try_body e w self qs qp = (fst (try_body e w self qs qp), Inl ex)"
    by (simp add: prod_eq_iff)
  from assms have "is_TransportProtocolError ex \<longrightarrow> reauthenticated self" by simp
  from query_Inl_no_retry [OF tb this] show ?thesis
    by (auto simp add: try_body_world)
qed

lemma query_call_bounds:
  "token_calls (fst (query e w self qs qp)) \<le> Suc (token_calls w)
   \<and> execute_calls (fst (query e w self qs qp)) \<le> Suc (Suc (execute_calls w))"
proof (cases "snd (try_body e w self qs qp)")
  case (Inr r)
  then have "try_body e w self qs qp = (fst (try_body e w self qs qp), Inr r)"
    by (simp add: prod_eq_iff)
  from query_Inr [OF this] show ?thesis
    using try_body_world(2) [of e w self qs qp]
    by (simp add: emit_def try_body_world(1))
next
  case (Inl ex0)
  let ?w0 = "fst (try_body e w self qs qp)"
  from Inl have tb: "try_body e w self qs qp = (?w0, Inl ex0)"
    by (simp add: prod_eq_iff)
  show ?thesis
  proof (cases "is_TransportProtocolError ex0 \<and> \<not> reauthenticated self")
    case False
    then have "is_TransportProtocolError ex0 \<longrightarrow> reauthenticated self" by blast
    from query_Inl_no_retry [OF tb this] show ?thesis
      using try_body_world(2) [of e w self qs qp]
      by (auto simp add: try_body_world(1))
  next
    case True
    then obtain m where m: "ex0 = TransportProtocolError m" and nf: "\<not> reauthenticated self"
      by (cases ex0) simp_all
    from tb m have tb': "try_body e w self qs qp = (?w0, Inl (TransportProtocolError m))"
      by simp
    show ?thesis
    proof (cases "get_access_token e (token_calls ?w0)")
      case (Inl ex1)
      from query_token_failure [OF nf tb' Inl] show ?thesis
        using try_body_world(2) [of e w self qs qp]
        by (simp add: try_body_world(1))
    next
      case (Inr token)
      let ?c' = "Client (AIOHTTPTransport (ROBOT_API_URL e) [(''authorization'', ''Bearer '' @ token)]) True"
      let ?w3 = "?w0\<lparr>token_calls := Suc (token_calls ?w0),
                     events := events ?w0 @ [TokenRequested, ClientAssigned ?c', ReauthenticatedAssigned True]\<rparr>"
      let ?self3 = "self\<lparr>client := Some ?c', reauthenticated := True\<rparr>"
      let ?Q = "query e ?w3 ?self3 qs qp"
      have inner: "?Q = (fst ?Q, fst (snd ?Q), snd (snd ?Q))" by simp
      have "reauthenticated ?self3" by simp
      from flagged_call_bounds [OF this, of e ?w3 qs qp]
      have B: "token_calls (fst ?Q) = Suc (token_calls w)"
          "execute_calls (fst ?Q) \<le> Suc (execute_calls ?w0)"
        by (simp_all add: try_body_world(1))
      from query_retry [OF nf tb' Inr inner] B show ?thesis
        using try_body_world(2) [of e w self qs qp]
        by (simp add: emit_def)
    qed
  qed
qed

text \<open>
  C3, amended. No call of \<open>query\<close> requests more than one token or executes more than
  twice, so there is at most one reauthentication retry per call. For a call entered with
  the flag down, whose first execution raises a transport-protocol error and whose token
  request succeeds: the call requests one token, builds one session on it, and executes
  the same document with the same parameters once more on that session; after the retry
  come at most one error record and the two cleanups, so there is no further token
  request, session or execution. A transport-protocol error of the retry is the exception
  the caller gets.
\<close>

theorem query_protocol_error_one_rebuild_one_retry:
  "token_calls (fst (query e w self qs qp)) \<le> Suc (token_calls w)
   \<and> execute_calls (fst (query e w self qs qp)) \<le> Suc (Suc (execute_calls w))
   \<and> (\<not> reauthenticated self
       \<and> client self = Some c
       \<and> gql e qs = Inr doc
       \<and> execute e (execute_calls w) c doc qp = Inl (TransportProtocolError m)
       \<and> get_access_token e (token_calls w) = Inr token
       \<and> c' = Client (AIOHTTPTransport (ROBOT_API_URL e) [(''authorization'', ''Bearer '' @ token)]) True
       \<longrightarrow>
       (\<exists>logs.
           events (fst (query e w self qs qp)) =
             events w @
               [Executed c doc qp, TokenRequested, ClientAssigned c', ReauthenticatedAssigned True,
                Executed c' doc qp]
               @ logs @ [ReauthenticatedAssigned False, ReauthenticatedAssigned False]
           \<and> (logs = [] \<or> (\<exists>msg. logs = [Logged ERROR msg]))
           \<and> token_calls (fst (query e w self qs qp)) = Suc (token_calls w)
           \<and> execute_calls (fst (query e w self qs qp)) = Suc (Suc (execute_calls w))
           \<and> client (fst (snd (query e w self qs qp))) = Some c'
           \<and> (\<forall>m'. execute e (Suc (execute_calls w)) c' doc qp = Inl (TransportProtocolError m')
                  \<longrightarrow> snd (snd (query e w self qs qp)) = Inl (TransportProtocolError m'))))"
  using query_call_bounds [of e w self qs qp] query_retry_trace [of self c e qs doc w qp m token c']
  by blast


theorem query_protocol_error_one_rebuild_one_retry_witness:
  "snd (snd (query (example_env (\<lambda>k. Inr ''fresh'') (\<lambda>k. Inl (TransportProtocolError ''401'')))
               example_world example_self ''query { robot }'' []))
     = Inl (TransportProtocolError ''401'')
   \<and> token_calls (fst (query (example_env (\<lambda>k. Inr ''fresh'') (\<lambda>k. Inl (TransportProtocolError ''401'')))
                          example_world example_self ''query { robot }'' [])) = 1
   \<and> execute_calls (fst (query (example_env (\<lambda>k. Inr ''fresh'') (\<lambda>k. Inl (TransportProtocolError ''401'')))
                            example_world example_self ''query { robot }'' [])) = 2
   \<and> client (fst (snd (query (example_env (\<lambda>k. Inr ''fresh'') (\<lambda>k. Inl (TransportProtocolError ''401'')))
                          example_world example_self ''query { robot }'' []))) = Some rebuilt_client"
  using query_protocol_error_one_rebuild_one_retry
    [where e = "example_env (\<lambda>k. Inr ''fresh'') (\<lambda>k. Inl (TransportProtocolError ''401''))"
       and w = example_world and self = example_self
       and qs = "''query { robot }''" and qp = "[]"
       and c = example_client and doc = "DocumentNode ''query { robot }''"
       and m = "''401''" and token = "''fresh''" and c' = rebuilt_client]
  by (auto simp add: example_env_def example_world_def example_self_def rebuilt_client_def)

section \<open>Errors that are not retried\<close>

text \<open>
  C4. When the first attempt (parsing or executing) raises anything but a
  transport-protocol error, that exception reaches the caller. Beyond the attempt itself
  the call only writes at most one error record and runs the cleanup: no token is
  requested, the session is the one the call started with, and nothing is executed again.
\<close>

theorem query_other_error_no_rebuild_no_retry:
  assumes "snd (try_body e w self qs qp) = Inl ex"
    and "\<not> is_TransportProtocolError ex"
  shows "\<exists>attempt logs.
           events (fst (query e w self qs qp)) =
             events w @ attempt @ logs @ [ReauthenticatedAssigned False]
           \<and> (attempt = [] \<or> (\<exists>c doc. attempt = [Executed c doc qp]))
           \<and> (if is_Exception ex then \<exists>msg. logs = [Logged ERROR msg] else logs = [])
           \<and> token_calls (fst (query e w self qs qp)) = token_calls w
           \<and> execute_calls (fst (query e w self qs qp)) \<le> Suc (execute_calls w)
           \<and> fst (snd (query e w self qs qp)) = self\<lparr>reauthenticated := False\<rparr>
           \<and> snd (snd (query e w self qs qp)) = Inl ex"
proof -
  let ?w0 = "fst (try_body e w self qs qp)"
  have tb: "try_body e w self qs qp = (?w0, Inl ex)"
    using assms(1) by (simp add: prod_eq_iff)
  from try_body_events [of e w self qs qp] obtain attempt where
    A: "events ?w0 = events w @ attempt" "attempt = [] \<or> (\<exists>c doc. attempt = [Executed c doc qp])"
    by blast
  from query_Inl_no_retry [OF tb] assms(2) obtain logs where
    L: "events (fst (query e w self qs qp)) = events ?w0 @ logs @ [ReauthenticatedAssigned False]"
      "if is_Exception ex then \<exists>msg. logs = [Logged ERROR msg] else logs = []"
      "token_calls (fst (query e w self qs qp)) = token_calls ?w0"
      "execute_calls (fst (query e w self qs qp)) = execute_calls ?w0"
      "fst (snd (query e w self qs qp)) = self\<lparr>reauthenticated := False\<rparr>"
      "snd (snd (query e w self qs qp)) = Inl ex"
    by blast
  have "events (fst (query e w self qs qp)) =
          events w @ attempt @ logs @ [ReauthenticatedAssigned False]"
    using L(1) A(1) by simp
  moreover have "token_calls (fst (query e w self qs qp)) = token_calls w"
    using L(3) by (simp add: try_body_world)
  moreover have "execute_calls (fst (query e w self qs qp)) \<le> Suc (execute_calls w)"
    using L(4) by (simp add: try_body_world)
  ultimately show ?thesis
    using A(2) L(2,5,6) by blast
qed

theorem query_other_error_no_rebuild_no_retry_witness:
  "query (example_env (\<lambda>k. Inr ''fresh'') (\<lambda>k. Inl (TransportServerError ''502 Bad Gateway'')))
     example_world example_self ''query { robot }'' [] =
     (\<lparr>token_calls = 0, execute_calls = 1,
       events = [Executed example_client (DocumentNode ''query { robot }'') [],
                 Logged ERROR ''Error in Energy Robotics server: 502 Bad Gateway'',
                 ReauthenticatedAssigned False]\<rparr>,
      example_self, Inl (TransportServerError ''502 Bad Gateway''))"
proof -
  let ?e = "example_env (\<lambda>k. Inr ''fresh'') (\<lambda>k. Inl (TransportServerError ''502 Bad Gateway''))"
  let ?Q = "query ?e example_world example_self ''query { robot }'' []"
  have tb: "snd (try_body ?e example_world example_self ''query { robot }'' [])
              = Inl (TransportServerError ''502 Bad Gateway'')"
    by (simp add: try_body_def example_env_def example_self_def)
  have "\<not> is_TransportProtocolError (TransportServerError ''502 Bad Gateway'')"
    by simp
  from query_other_error_no_rebuild_no_retry [OF tb this]
  have "snd (snd ?Q) = Inl (TransportServerError ''502 Bad Gateway'')"
    and "fst (snd ?Q) = example_self\<lparr>reauthenticated := False\<rparr>"
    by blast+
  moreover have "fst ?Q =
      \<lparr>token_calls = 0, execute_calls = 1,
       events = [Executed example_client (DocumentNode ''query { robot }'') [],
                 Logged ERROR ''Error in Energy Robotics server: 502 Bad Gateway'',
                 ReauthenticatedAssigned False]\<rparr>"
    by (subst query.simps)
       (simp add: try_body_def example_env_def example_self_def example_world_def
          set_reauthenticated_def log_def emit_def)
  ultimately show ?thesis
    by (simp add: prod_eq_iff example_self_def)
qed

section \<open>Construction\<close>

lemma init_failure:
  assumes "get_access_token e (token_calls w) = Inl ex"
  shows "init e w =
           (w\<lparr>token_calls := Suc (token_calls w),
              events := events w @ [ReauthenticatedAssigned False, TokenRequested]
                @ (if is_Exception ex
                   then [Logged CRITICAL (''CRITICAL - Error getting access token: '' @ [CHR 0x0A] @ str_exn ex)]
                   else [])\<rparr>,
            Inl ex)"
  using assms
  by (simp add: init_def initialize_client_def set_reauthenticated_def log_def emit_def Let_def)

lemma init_success:
  assumes "get_access_token e (token_calls w) = Inr token"
  shows "\<exists>w' self'. init e w = (w', Inr self') \<and> reauthenticated self' = False"
  using assms
  by (simp add: init_def initialize_client_def set_reauthenticated_def emit_def Let_def)

text \<open>
  C6. When the credential provider raises during construction, the constructor raises
  the same exception: no object is returned, the provider was called once, and the trace
  holds no session assignment, only the flag's initialisation, the token request and (for
  an \<open>Exception\<close>) the critical record.
\<close>

theorem init_token_failure:
  assumes "get_access_token e (token_calls w) = Inl ex"
  shows "init e w =
           (w\<lparr>token_calls := Suc (token_calls w),
              events := events w @ [ReauthenticatedAssigned False, TokenRequested]
                @ (if is_Exception ex
                   then [Logged CRITICAL (''CRITICAL - Error getting access token: '' @ [CHR 0x0A] @ str_exn ex)]
                   else [])\<rparr>,
            Inl ex)"
  using assms
  by (simp add: init_def initialize_client_def set_reauthenticated_def log_def emit_def Let_def)

theorem init_token_failure_witness:
  "init (example_env (\<lambda>k. Inl (OtherException ''no credentials'')) (\<lambda>k. Inr [])) example_world =
     (\<lparr>token_calls = 1, execute_calls = 0,
       events = [ReauthenticatedAssigned False, TokenRequested,
                 Logged CRITICAL (''CRITICAL - Error getting access token: '' @ [CHR 0x0A] @ ''no credentials'')]\<rparr>,
      Inl (OtherException ''no credentials''))"
  using init_token_failure
    [of "example_env (\<lambda>k. Inl (OtherException ''no credentials'')) (\<lambda>k. Inr [])"
        example_world "OtherException ''no credentials''"]
  by (simp add: example_env_def example_world_def)

section \<open>Logging before propagation\<close>

lemma no_retry_raise_logged:
  assumes tb: "try_body e w self qs qp = (w0, Inl ex0)"
    and nr: "is_TransportProtocolError ex0 \<longrightarrow> reauthenticated self"
    and res: "snd (snd (query e w self qs qp)) = Inl ex"
    and exc: "is_Exception ex"
  shows "\<exists>pre msg. events (fst (query e w self qs qp)) =
           events w @ pre @ [Logged ERROR msg] @ [ReauthenticatedAssigned False]"
proof -
  from query_Inl_no_retry [OF tb nr] obtain logs where
    L: "events (fst (query e w self qs qp)) = events w0 @ logs @ [ReauthenticatedAssigned False]"
      "if is_Exception ex0 then \<exists>msg. logs = [Logged ERROR msg] else logs = []"
      "snd (snd (query e w self qs qp)) = Inl ex0"
    by blast
  from L(3) res have "ex0 = ex" by simp
  with L(2) exc obtain msg where M: "logs = [Logged ERROR msg]" by auto
  from try_body_events [of e w self qs qp] tb obtain pre where
    P: "events w0 = events w @ pre"
    by auto
  show ?thesis
    using L(1) M P by simp
qed

lemma flagged_raise_logged:
  assumes fl: "reauthenticated self"
    and res: "snd (snd (query e w self qs qp)) = Inl ex"
    and exc: "is_Exception ex"
  shows "\<exists>pre msg. events (fst (query e w self qs qp)) =
           events w @ pre @ [Logged ERROR msg] @ [ReauthenticatedAssigned False]"
proof (cases "snd (try_body e w self qs qp)")
  case (Inr r)
  then have "try_body e w self qs qp = (fst (try_body e w self qs qp), Inr r)"
    by (simp add: prod_eq_iff)
  from query_Inr [OF this] res show ?thesis by simp
next
  case (Inl ex0)
  then have tb: "try_body e w self qs qp = (fst (try_body e w self qs qp), Inl ex0)"
    by (simp add: prod_eq_iff)
  from fl have "is_TransportProtocolError ex0 \<longrightarrow> reauthenticated self" by simp
  from no_retry_raise_logged [OF tb this res exc] show ?thesis .
qed

lemma query_raise_logged:
  assumes res: "snd (snd (query e w self qs qp)) = Inl ex"
    and exc: "is_Exception ex"
  shows "\<exists>pre lvl msg post.
           events (fst (query e w self qs qp)) = events w @ pre @ [Logged lvl msg] @ post
           \<and> (lvl = ERROR \<or> lvl = CRITICAL)
           \<and> set post \<subseteq> {ReauthenticatedAssigned False}"
proof (cases "snd (try_body e w self qs qp)")
  case (Inr r)
  then have "try_body e w self qs qp = (fst (try_body e w self qs qp), Inr r)"
    by (simp add: prod_eq_iff)
  from query_Inr [OF this] res show ?thesis by simp
next
  case (Inl ex0)
  let ?w0 = "fst (try_body e w self qs qp)"
  from Inl have tb: "try_body e w self qs qp = (?w0, Inl ex0)"
    by (simp add: prod_eq_iff)
  from try_body_events [of e w self qs qp] obtain attempt where
    A: "events ?w0 = events w @ attempt"
    by blast
  show ?thesis
  proof (cases "is_TransportProtocolError ex0 \<and> \<not> reauthenticated self")
    case False
    then have "is_TransportProtocolError ex0 \<longrightarrow> reauthenticated self" by blast
    from no_retry_raise_logged [OF tb this res exc] obtain pre msg where
      "events (fst (query e w self qs qp)) =
         events w @ pre @ [Logged ERROR msg] @ [ReauthenticatedAssigned False]"
      by blast
    then show ?thesis by fastforce
  next
    case True
    then obtain m where m: "ex0 = TransportProtocolError m" and nf: "\<not> reauthenticated self"
      by (cases ex0) simp_all
    from tb m have tb': "try_body e w self qs qp = (?w0, Inl (TransportProtocolError m))"
      by simp
    show ?thesis
    proof (cases "get_access_token e (token_calls ?w0)")
      case (Inl ex1)
      from query_token_failure [OF nf tb' Inl] res have "ex1 = ex" by simp
      with query_token_failure [OF nf tb' Inl] exc A
      have "events (fst (query e w self qs qp)) =
              events w @ (attempt @ [TokenRequested])
                @ [Logged CRITICAL (''CRITICAL - Error getting access token: '' @ [CHR 0x0A] @ str_exn ex)]
                @ [ReauthenticatedAssigned False]"
        by simp
      then show ?thesis by fastforce
    next
      case (Inr token)
      let ?c' = "Client (AIOHTTPTransport (ROBOT_API_URL e) [(''authorization'', ''Bearer '' @ token)]) True"
      let ?w3 = "?w0\<lparr>token_calls := Suc (token_calls ?w0),
                     events := events ?w0 @ [TokenRequested, ClientAssigned ?c', ReauthenticatedAssigned True]\<rparr>"
      let ?self3 = "self\<lparr>client := Some ?c', reauthenticated := True\<rparr>"
      let ?Q = "query e ?w3 ?self3 qs qp"
      have inner: "?Q = (fst ?Q, fst (snd ?Q), snd (snd ?Q))" by simp
      have outer: "query e w self qs qp =
          (emit (ReauthenticatedAssigned False) (fst ?Q), (fst (snd ?Q))\<lparr>reauthenticated := False\<rparr>,
           (case snd (snd ?Q) of Inl ex \<Rightarrow> Inl ex | Inr discarded \<Rightarrow> Inr []))"
        by (rule query_retry [OF nf tb' Inr inner])
      from outer res have ires: "snd (snd ?Q) = Inl ex"
        by (simp split: sum.splits)
      have "reauthenticated ?self3" by simp
      from flagged_raise_logged [OF this ires exc] obtain pre msg where
        "events (fst ?Q) = events ?w3 @ pre @ [Logged ERROR msg] @ [ReauthenticatedAssigned False]"
        by blast
      with outer A
      have "events (fst (query e w self qs qp)) =
              events w @ (attempt @ [TokenRequested, ClientAssigned ?c', ReauthenticatedAssigned True] @ pre)
                @ [Logged ERROR msg]
                @ [ReauthenticatedAssigned False, ReauthenticatedAssigned False]"
        by (simp add: emit_def)
      moreover have "set [ReauthenticatedAssigned False, ReauthenticatedAssigned False]
                       \<subseteq> {ReauthenticatedAssigned False}"
        by simp
      ultimately show ?thesis by blast
    qed
  qed
qed

text \<open>
  C7. Whenever construction or \<open>query\<close> raises an \<open>Exception\<close> (every category of the
  taxonomy is one), a record of severity error or critical was written during the call,
  and after that record nothing happened but the resetting of the flag: the record
  precedes the propagation.
\<close>

theorem failures_logged_before_propagation:
  assumes "is_Exception ex"
  shows "(snd (init e w) = Inl ex \<longrightarrow>
            (\<exists>pre msg. events (fst (init e w)) = events w @ pre @ [Logged CRITICAL msg]))
         \<and> (snd (snd (query e w self qs qp)) = Inl ex \<longrightarrow>
            (\<exists>pre lvl msg post.
               events (fst (query e w self qs qp)) = events w @ pre @ [Logged lvl msg] @ post
               \<and> (lvl = ERROR \<or> lvl = CRITICAL)
               \<and> set post \<subseteq> {ReauthenticatedAssigned False}))"
proof (intro conjI impI)
  assume r: "snd (init e w) = Inl ex"
  show "\<exists>pre msg. events (fst (init e w)) = events w @ pre @ [Logged CRITICAL msg]"
  proof (cases "get_access_token e (token_calls w)")
    case (Inl ex1)
    from init_failure [OF Inl] r have "ex1 = ex" by simp
    with init_failure [OF Inl] assms have "events (fst (init e w)) =
        events w @ [ReauthenticatedAssigned False, TokenRequested]
          @ [Logged CRITICAL (''CRITICAL - Error getting access token: '' @ [CHR 0x0A] @ str_exn ex)]"
      by simp
    then show ?thesis by blast
  next
    case (Inr token)
    with r show ?thesis
      by (simp add: init_def initialize_client_def set_reauthenticated_def emit_def Let_def)
  qed
next
  assume "snd (snd (query e w self qs qp)) = Inl ex"
  then show "\<exists>pre lvl msg post.
               events (fst (query e w self qs qp)) = events w @ pre @ [Logged lvl msg] @ post
               \<and> (lvl = ERROR \<or> lvl = CRITICAL)
               \<and> set post \<subseteq> {ReauthenticatedAssigned False}"
    using assms by (rule query_raise_logged)
qed

theorem failures_logged_before_propagation_witness:
  "is_Exception (OtherException ''no credentials'')
   \<and> snd (init (example_env (\<lambda>k. Inl (OtherException ''no credentials''))
                  (\<lambda>k. Inl (TransportProtocolError ''401''))) example_world)
       = Inl (OtherException ''no credentials'')
   \<and> snd (snd (query (example_env (\<lambda>k. Inl (OtherException ''no credentials''))
                         (\<lambda>k. Inl (TransportProtocolError ''401'')))
                  example_world example_self ''query { robot }'' []))
       = Inl (OtherException ''no credentials'')
   \<and> (\<exists>pre msg.
         events (fst (init (example_env (\<lambda>k. Inl (OtherException ''no credentials''))
                              (\<lambda>k. Inl (TransportProtocolError ''401''))) example_world))
           = events example_world @ pre @ [Logged CRITICAL msg])
   \<and> (\<exists>pre lvl msg post.
         events (fst (query (example_env (\<lambda>k. Inl (OtherException ''no credentials''))
                               (\<lambda>k. Inl (TransportProtocolError ''401'')))
                        example_world example_self ''query { robot }'' []))
           = events example_world @ pre @ [Logged lvl msg] @ post
         \<and> (lvl = ERROR \<or> lvl = CRITICAL)
         \<and> set post \<subseteq> {ReauthenticatedAssigned False})"
proof -
  let ?e = "example_env (\<lambda>k. Inl (OtherException ''no credentials''))
              (\<lambda>k. Inl (TransportProtocolError ''401''))"
  let ?ex = "OtherException ''no credentials''"
  have exc: "is_Exception ?ex" by simp
  have tok: "get_access_token ?e (token_calls example_world) = Inl ?ex"
    by (simp add: example_env_def)
  have h1: "snd (init ?e example_world) = Inl ?ex"
    using init_failure [OF tok] by simp
  have tb: "try_body ?e example_world example_self ''query { robot }'' [] =
      (\<lparr>token_calls = 0, execute_calls = 1,
        events = [Executed example_client (DocumentNode ''query { robot }'') []]\<rparr>,
       Inl (TransportProtocolError ''401''))"
    by (simp add: try_body_def emit_def example_env_def example_world_def example_self_def)
  have nf: "\<not> reauthenticated example_self"
    by (simp add: example_self_def)
  have tok': "get_access_token ?e
      (token_calls \<lparr>token_calls = 0, execute_calls = 1,
                    events = [Executed example_client (DocumentNode ''query { robot }'') []]\<rparr>)
      = Inl ?ex"
    by (simp add: example_env_def)
  have h2: "snd (snd (query ?e example_world example_self ''query { robot }'' [])) = Inl ?ex"
    using query_token_failure [OF nf tb tok'] by simp
  from failures_logged_before_propagation [OF exc, of ?e example_world example_self "''query { robot }''" "[]"]
    h1 h2 exc
  show ?thesis by blast
qed

section \<open>What a returning call returns\<close>

lemma try_body_Inr:
  assumes "snd (try_body e w self qs qp) = Inr r"
  shows "\<exists>c doc. client self = Some c \<and> gql e qs = Inr doc
           \<and> execute e (execute_calls w) c doc qp = Inr r"
  using assms
  by (auto simp add: try_body_def split: sum.splits option.splits)

text \<open>
  C9. A call of \<open>query\<close> that returns gives back a dictionary: either the mapping its
  first execution produced, or, when the first attempt raised a transport-protocol error
  with the flag down (the retry branch, left at the end of the handler), the empty
  mapping. The result type has no \<open>None\<close>: every way out of the statement is a \<open>return\<close>
  of a dictionary or a raise.
\<close>

theorem query_returns_response_or_empty:
  assumes "snd (snd (query e w self qs qp)) = Inr r"
  shows "(\<exists>c doc. client self = Some c \<and> gql e qs = Inr doc
            \<and> execute e (execute_calls w) c doc qp = Inr r)
         \<or> (r = [] \<and> \<not> reauthenticated self
             \<and> (\<exists>m. snd (try_body e w self qs qp) = Inl (TransportProtocolError m)))"
proof (cases "snd (try_body e w self qs qp)")
  case (Inr r0)
  then have "try_body e w self qs qp = (fst (try_body e w self qs qp), Inr r0)"
    by (simp add: prod_eq_iff)
  from query_Inr [OF this] assms have "r0 = r" by simp
  with Inr try_body_Inr show ?thesis by blast
next
  case (Inl ex0)
  let ?w0 = "fst (try_body e w self qs qp)"
  from Inl have tb: "try_body e w self qs qp = (?w0, Inl ex0)"
    by (simp add: prod_eq_iff)
  show ?thesis
  proof (cases "is_TransportProtocolError ex0 \<and> \<not> reauthenticated self")
    case False
    then have "is_TransportProtocolError ex0 \<longrightarrow> reauthenticated self" by blast
    from query_Inl_no_retry [OF tb this] assms show ?thesis by auto
  next
    case True
    then obtain m where m: "ex0 = TransportProtocolError m" and nf: "\<not> reauthenticated self"
      by (cases ex0) simp_all
    from tb m have tb': "try_body e w self qs qp = (?w0, Inl (TransportProtocolError m))"
      by simp
    have "r = []"
    proof (cases "get_access_token e (token_calls ?w0)")
      case (Inl ex1)
      from query_token_failure [OF nf tb' Inl] assms show ?thesis by simp
    next
      case (Inr token)
      let ?c' = "Client (AIOHTTPTransport (ROBOT_API_URL e) [(''authorization'', ''Bearer '' @ token)]) True"
      let ?w3 = "?w0\<lparr>token_calls := Suc (token_calls ?w0),
                     events := events ?w0 @ [TokenRequested, ClientAssigned ?c', ReauthenticatedAssigned True]\<rparr>"
      let ?self3 = "self\<lparr>client := Some ?c', reauthenticated := True\<rparr>"
      let ?Q = "query e ?w3 ?self3 qs qp"
      have inner: "?Q = (fst ?Q, fst (snd ?Q), snd (snd ?Q))" by simp
      from query_retry [OF nf tb' Inr inner] assms show ?thesis
        by (simp split: sum.splits)
    qed
    with nf Inl m show ?thesis by simp
  qed
qed

theorem query_returns_response_or_empty_witness:
  "snd (snd (query (example_env (\<lambda>k. Inr ''fresh'') (\<lambda>k. Inr [(''robot'', JStr ''r7'')]))
               example_world example_self ''query { robot }'' []))
     = Inr [(''robot'', JStr ''r7'')]
   \<and> ((\<exists>c doc. client example_self = Some c
          \<and> gql (example_env (\<lambda>k. Inr ''fresh'') (\<lambda>k. Inr [(''robot'', JStr ''r7'')])) ''query { robot }''
              = Inr doc
          \<and> execute (example_env (\<lambda>k. Inr ''fresh'') (\<lambda>k. Inr [(''robot'', JStr ''r7'')]))
               (execute_calls example_world) c doc [] = Inr [(''robot'', JStr ''r7'')])
        \<or> ([(''robot'', JStr ''r7'')] = ([] :: dict) \<and> \<not> reauthenticated example_self
            \<and> (\<exists>m. snd (try_body (example_env (\<lambda>k. Inr ''fresh'') (\<lambda>k. Inr [(''robot'', JStr ''r7'')]))
                             example_world example_self ''query { robot }'' [])
                     = Inl (TransportProtocolError m))))"
proof -
  let ?e = "example_env (\<lambda>k. Inr ''fresh'') (\<lambda>k. Inr [(''robot'', JStr ''r7'')])"
  have tb: "try_body ?e example_world example_self ''query { robot }'' [] =
      (\<lparr>token_calls = 0, execute_calls = 1,
        events = [Executed example_client (DocumentNode ''query { robot }'') []]\<rparr>,
       Inr [(''robot'', JStr ''r7'')])"
    by (simp add: try_body_def emit_def example_env_def example_world_def example_self_def)
  have h: "snd (snd (query ?e example_world example_self ''query { robot }'' []))
             = Inr [(''robot'', JStr ''r7'')]"
    using query_Inr [OF tb] by simp
  from query_returns_response_or_empty [OF h] h show ?thesis by blast
qed

end
